theory Spec2Isabelle
  imports Complex_Main
begin

section \<open>Suspension components: control arm, rocker, shock, LongAccel\<close>

text \<open>
  A shallow embedding of \<^verbatim>\<open>components.py\<close>. The numbers of sympy, which the links
  and the aggregate compute with, are modelled by the real numbers (exact arithmetic, no
  rounding); the floats of Python, which a shock built from floats computes with, are
  doubles with their rounding. Objects that the Python mutates in
  place are records that the operations return updated; every link owns its frame, no
  frame object is shared between two links. An exception is a value of type
  \<open>error\<close>, returned as \<open>Inl\<close>. \<^verbatim>\<open>ControlArm.force_u\<close>, which prints and which no other
  method calls, is left out.
\<close>

subsection \<open>Numbers that may be non-finite\<close>

text \<open>
  sympy does not raise on a division by zero: \<^verbatim>\<open>x / 0\<close> is \<^verbatim>\<open>zoo\<close> (or \<^verbatim>\<open>nan\<close> for
  \<^verbatim>\<open>0 / 0\<close>), and these values absorb the arithmetic that follows in this module.
  A \<open>scalar\<close> is such a number: a real, or \<open>NonFinite\<close> for \<^verbatim>\<open>zoo\<close>/\<^verbatim>\<open>nan\<close>.
\<close>

datatype scalar = Fin real | NonFinite

fun sneg :: "scalar \<Rightarrow> scalar" where
  "sneg (Fin a) = Fin (- a)"
| "sneg NonFinite = NonFinite"

fun sadd :: "scalar \<Rightarrow> scalar \<Rightarrow> scalar" where
  "sadd (Fin a) (Fin b) = Fin (a + b)"
| "sadd _ _ = NonFinite"

fun smul :: "scalar \<Rightarrow> scalar \<Rightarrow> scalar" where
  "smul (Fin a) (Fin b) = Fin (a * b)"
| "smul _ _ = NonFinite"

fun ssub :: "scalar \<Rightarrow> scalar \<Rightarrow> scalar" where
  "ssub (Fin a) (Fin b) = Fin (a - b)"
| "ssub _ _ = NonFinite"

fun sdiv :: "scalar \<Rightarrow> scalar \<Rightarrow> scalar" where
  "sdiv (Fin a) (Fin b) = (if b = 0 then NonFinite else Fin (a / b))"
| "sdiv _ _ = NonFinite"

text \<open>The operators \<^verbatim>\<open>+\<close>, \<^verbatim>\<open>-\<close> and \<^verbatim>\<open>*\<close> of Python on these numbers.\<close>

instantiation scalar :: "{plus, minus, times}"
begin

definition plus_scalar :: "scalar \<Rightarrow> scalar \<Rightarrow> scalar" where
  "plus_scalar = sadd"

definition minus_scalar :: "scalar \<Rightarrow> scalar \<Rightarrow> scalar" where
  "minus_scalar = ssub"

definition times_scalar :: "scalar \<Rightarrow> scalar \<Rightarrow> scalar" where
  "times_scalar = smul"

instance ..

end

subsection \<open>Python floats\<close>

text \<open>
  A Python float is an IEEE 754 double: \<open>Finite m e\<close> is the number \<open>m * 2 ^ e\<close>, with
  \<open>m\<close> odd or \<open>m = 0\<close> and \<open>e = 0\<close>, beside the two infinities and \<^verbatim>\<open>nan\<close>. The sign of
  zero, which \<^verbatim>\<open>==\<close> does not see, is left out. The operators round the exact result to
  the nearest double, a tie to the even one; a result too large is an infinity.
\<close>

datatype pyfloat = Finite int int | PosInf | NegInf | NaN

function bit_length :: "int \<Rightarrow> int" where
  "bit_length n = (if n \<le> 0 then 0 else 1 + bit_length (n div 2))"
  by pat_completeness auto
termination
  by (relation "measure nat") auto

declare bit_length.simps [simp del]

function normalize :: "int \<Rightarrow> int \<Rightarrow> int \<times> int" where
  "normalize m e =
     (if m = 0 then (0, 0) else if even m then normalize (m div 2) (e + 1) else (m, e))"
  by pat_completeness auto
termination
  by (relation "measure (\<lambda>(m, e). nat \<bar>m\<bar>)") auto

declare normalize.simps [simp del]

text \<open>The double for \<open>m * 2 ^ e\<close>, when \<open>m\<close> has 53 bits at most: an infinity from \<open>2 ^ 1024\<close> on.\<close>

definition pack :: "int \<Rightarrow> int \<Rightarrow> pyfloat" where
  "pack m e =
     (case normalize m e of (m1, e1) \<Rightarrow>
        if bit_length \<bar>m1\<bar> + e1 > 1024 then (if 0 < m1 then PosInf else NegInf)
        else Finite m1 e1)"

text \<open>
  The double nearest to \<open>m * 2 ^ e\<close>: the mantissa keeps 53 bits, and no bit below
  \<open>2 ^ - 1074\<close>.
\<close>

definition round_to_double :: "int \<Rightarrow> int \<Rightarrow> pyfloat" where
  "round_to_double m e =
     (let n = bit_length \<bar>m\<bar>; shift = max (n - 53) (- 1074 - e) in
      if shift \<le> 0 then pack m e
      else
        let p = 2 ^ nat shift; q0 = \<bar>m\<bar> div p; r = \<bar>m\<bar> mod p; half = p div 2;
            q = (if r < half \<or> (r = half \<and> even q0) then q0 else q0 + 1)
        in pack (sgn m * q) (e + shift))"

fun fneg :: "pyfloat \<Rightarrow> pyfloat" where
  "fneg (Finite m e) = Finite (- m) e"
| "fneg PosInf = NegInf"
| "fneg NegInf = PosInf"
| "fneg NaN = NaN"

fun fadd :: "pyfloat \<Rightarrow> pyfloat \<Rightarrow> pyfloat" where
  "fadd (Finite m1 e1) (Finite m2 e2) =
     (let e = min e1 e2 in round_to_double (m1 * 2 ^ nat (e1 - e) + m2 * 2 ^ nat (e2 - e)) e)"
| "fadd NaN _ = NaN"
| "fadd _ NaN = NaN"
| "fadd PosInf NegInf = NaN"
| "fadd NegInf PosInf = NaN"
| "fadd PosInf _ = PosInf"
| "fadd NegInf _ = NegInf"
| "fadd _ PosInf = PosInf"
| "fadd _ NegInf = NegInf"

definition fsub :: "pyfloat \<Rightarrow> pyfloat \<Rightarrow> pyfloat" where
  "fsub a b = fadd a (fneg b)"

fun fmul :: "pyfloat \<Rightarrow> pyfloat \<Rightarrow> pyfloat" where
  "fmul (Finite m1 e1) (Finite m2 e2) = round_to_double (m1 * m2) (e1 + e2)"
| "fmul NaN _ = NaN"
| "fmul _ NaN = NaN"
| "fmul (Finite m e) PosInf = (if m = 0 then NaN else if 0 < m then PosInf else NegInf)"
| "fmul (Finite m e) NegInf = (if m = 0 then NaN else if 0 < m then NegInf else PosInf)"
| "fmul PosInf (Finite m e) = (if m = 0 then NaN else if 0 < m then PosInf else NegInf)"
| "fmul NegInf (Finite m e) = (if m = 0 then NaN else if 0 < m then NegInf else PosInf)"
| "fmul PosInf PosInf = PosInf"
| "fmul NegInf NegInf = PosInf"
| "fmul PosInf NegInf = NegInf"
| "fmul NegInf PosInf = NegInf"

instantiation pyfloat :: "{plus, minus, times}"
begin

definition plus_pyfloat :: "pyfloat \<Rightarrow> pyfloat \<Rightarrow> pyfloat" where
  "plus_pyfloat = fadd"

definition minus_pyfloat :: "pyfloat \<Rightarrow> pyfloat \<Rightarrow> pyfloat" where
  "minus_pyfloat = fsub"

definition times_pyfloat :: "pyfloat \<Rightarrow> pyfloat \<Rightarrow> pyfloat" where
  "times_pyfloat = fmul"

instance ..

end

text \<open>The doubles that are numbers: a mantissa of 53 bits at most, in the range of the exponents.\<close>

fun is_finite_double :: "pyfloat \<Rightarrow> bool" where
  "is_finite_double (Finite m e) =
     ((m = 0 \<and> e = 0) \<or>
      (odd m \<and> bit_length \<bar>m\<bar> \<le> 53 \<and> - 1074 \<le> e \<and> bit_length \<bar>m\<bar> + e \<le> 1024))"
| "is_finite_double _ = False"

subsection \<open>Errors\<close>

datatype error =
    ValueError string
  | NonInvertibleMatrixError
  | SolverError

subsection \<open>The vector and frame layer (module dynamics)\<close>

type_synonym Matrix31 = "real \<times> real \<times> real"
type_synonym Matrix33 = "Matrix31 \<times> Matrix31 \<times> Matrix31"

text \<open>Column vectors and 3x3 matrices (given by their rows) of sympy.\<close>

fun vadd :: "Matrix31 \<Rightarrow> Matrix31 \<Rightarrow> Matrix31" where
  "vadd (a1, a2, a3) (b1, b2, b3) = (a1 + b1, a2 + b2, a3 + b3)"

fun vsub :: "Matrix31 \<Rightarrow> Matrix31 \<Rightarrow> Matrix31" where
  "vsub (a1, a2, a3) (b1, b2, b3) = (a1 - b1, a2 - b2, a3 - b3)"

fun dot :: "Matrix31 \<Rightarrow> Matrix31 \<Rightarrow> real" where
  "dot (a1, a2, a3) (b1, b2, b3) = a1 * b1 + a2 * b2 + a3 * b3"

fun mat_vec :: "Matrix33 \<Rightarrow> Matrix31 \<Rightarrow> Matrix31" where
  "mat_vec (r1, r2, r3) x = (dot r1 x, dot r2 x, dot r3 x)"

fun transpose33 :: "Matrix33 \<Rightarrow> Matrix33" where
  "transpose33 ((a11, a12, a13), (a21, a22, a23), (a31, a32, a33)) =
     ((a11, a21, a31), (a12, a22, a32), (a13, a23, a33))"

definition mat_mul :: "Matrix33 \<Rightarrow> Matrix33 \<Rightarrow> Matrix33" where
  "mat_mul A B =
     (case transpose33 B of (c1, c2, c3) \<Rightarrow>
        transpose33 (mat_vec A c1, mat_vec A c2, mat_vec A c3))"

definition eye3 :: Matrix33 where
  "eye3 = ((1, 0, 0), (0, 1, 0), (0, 0, 1))"

fun det33 :: "Matrix33 \<Rightarrow> real" where
  "det33 ((a11, a12, a13), (a21, a22, a23), (a31, a32, a33)) =
     a11 * (a22 * a33 - a23 * a32) - a12 * (a21 * a33 - a23 * a31)
       + a13 * (a21 * a32 - a22 * a31)"

fun adjugate33 :: "Matrix33 \<Rightarrow> Matrix33" where
  "adjugate33 ((a11, a12, a13), (a21, a22, a23), (a31, a32, a33)) =
     ((a22 * a33 - a23 * a32, a13 * a32 - a12 * a33, a12 * a23 - a13 * a22),
      (a23 * a31 - a21 * a33, a11 * a33 - a13 * a31, a13 * a21 - a11 * a23),
      (a21 * a32 - a22 * a31, a12 * a31 - a11 * a32, a11 * a22 - a12 * a21))"

fun scale33 :: "real \<Rightarrow> Matrix33 \<Rightarrow> Matrix33" where
  "scale33 c ((a11, a12, a13), (a21, a22, a23), (a31, a32, a33)) =
     ((c * a11, c * a12, c * a13), (c * a21, c * a22, c * a23),
      (c * a31, c * a32, c * a33))"

text \<open>
  \<^verbatim>\<open>M ** -1\<close> of sympy. The power of a diagonal matrix is taken entry by entry, with no
  test: a zero on the diagonal becomes \<^verbatim>\<open>zoo\<close>, and the result has entries that are not
  finite, which is \<open>None\<close> here. Any other matrix is inverted, and a singular one raises.
\<close>

fun is_diagonal :: "Matrix33 \<Rightarrow> bool" where
  "is_diagonal ((a11, a12, a13), (a21, a22, a23), (a31, a32, a33)) =
     (a12 = 0 \<and> a13 = 0 \<and> a21 = 0 \<and> a23 = 0 \<and> a31 = 0 \<and> a32 = 0)"

fun diagonal_inverse :: "Matrix33 \<Rightarrow> Matrix33 option" where
  "diagonal_inverse ((a11, a12, a13), (a21, a22, a23), (a31, a32, a33)) =
     (if a11 = 0 \<or> a22 = 0 \<or> a33 = 0 then None
      else Some ((1 / a11, 0, 0), (0, 1 / a22, 0), (0, 0, 1 / a33)))"

definition mat_inv :: "Matrix33 \<Rightarrow> error + Matrix33 option" where
  "mat_inv A =
     (if is_diagonal A then Inr (diagonal_inverse A)
      else if det33 A = 0 then Inl NonInvertibleMatrixError
      else Inr (Some (scale33 (1 / det33 A) (adjugate33 A))))"

text \<open>
  The product of such an inverse with a column: with an entry of the inverse that is not
  finite, the product has an entry that is not finite, which is \<open>None\<close>.
\<close>

definition inv_vec :: "Matrix33 option \<Rightarrow> Matrix31 \<Rightarrow> Matrix31 option" where
  "inv_vec M x = (case M of None \<Rightarrow> None | Some A \<Rightarrow> Some (mat_vec A x))"

text \<open>
  Modelled from the spec: class \<^verbatim>\<open>Vector\<close> of module \<^verbatim>\<open>dynamics\<close>, which is not among the
  sources. The spec names it a point with a Euclidean norm, a unit vector, a subtraction
  and a cross product; its coordinates are the attribute \<^verbatim>\<open>v\<close>. The unit vector is the
  vector divided by its norm: for the zero vector that division is by zero and no finite
  vector results, which is \<open>None\<close> here.
\<close>

datatype Vector = Vector (v: Matrix31)

text \<open>Modelled from the spec: \<^verbatim>\<open>Vector.norm\<close>, the Euclidean norm.\<close>

definition norm_v :: "Vector \<Rightarrow> real" where
  "norm_v a = sqrt (dot (v a) (v a))"

text \<open>Modelled from the spec: \<^verbatim>\<open>Vector.subtract\<close>, the receiver minus the argument.\<close>

definition subtract :: "Vector \<Rightarrow> Vector \<Rightarrow> Vector" where
  "subtract a b = Vector (vsub (v a) (v b))"

text \<open>Modelled from the spec: \<^verbatim>\<open>Vector.cross\<close>, the receiver cross the argument.\<close>

fun cross31 :: "Matrix31 \<Rightarrow> Matrix31 \<Rightarrow> Matrix31" where
  "cross31 (a1, a2, a3) (b1, b2, b3) =
     (a2 * b3 - a3 * b2, a3 * b1 - a1 * b3, a1 * b2 - a2 * b1)"

definition cross :: "Vector \<Rightarrow> Vector \<Rightarrow> Vector" where
  "cross a b = Vector (cross31 (v a) (v b))"

text \<open>
  Modelled from the spec: \<^verbatim>\<open>Vector.unit\<close>, the vector divided by its norm; \<open>None\<close> for
  the zero vector, whose entries divided by the norm zero are not finite.
\<close>

fun scale31 :: "real \<Rightarrow> Matrix31 \<Rightarrow> Matrix31" where
  "scale31 c (a1, a2, a3) = (c * a1, c * a2, c * a3)"

definition unit :: "Vector \<Rightarrow> Vector option" where
  "unit a = (if norm_v a = 0 then None else Some (Vector (scale31 (1 / norm_v a) (v a))))"

text \<open>
  Modelled from the spec: \<^verbatim>\<open>Vector(l).unit()\<close> for a column \<open>l\<close> that may have an entry
  that is not finite: such a vector has no unit vector either.
\<close>

definition unit_of :: "Matrix31 option \<Rightarrow> Vector option" where
  "unit_of l = (case l of None \<Rightarrow> None | Some x \<Rightarrow> unit (Vector x))"

text \<open>The entries \<^verbatim>\<open>m[0]\<close>, \<^verbatim>\<open>m[1]\<close> and \<^verbatim>\<open>m[2]\<close> of a column.\<close>

fun entry0 :: "Matrix31 \<Rightarrow> real" where
  "entry0 (a1, a2, a3) = a1"

fun entry1 :: "Matrix31 \<Rightarrow> real" where
  "entry1 (a1, a2, a3) = a2"

fun entry2 :: "Matrix31 \<Rightarrow> real" where
  "entry2 (a1, a2, a3) = a3"

text \<open>
  Modelled from the spec: class \<^verbatim>\<open>RefFrame\<close> of module \<^verbatim>\<open>dynamics\<close>, which is not among
  the sources. A frame has an orientation relative to its parent, which
  \<^verbatim>\<open>set_rotation\<close> replaces, and an origin that never moves. The origin has a position
  in the parent, the field \<open>origin\<close>: the docstrings of \<^verbatim>\<open>components.py\<close> put the origin
  of a control arm at its front hardpoint and the origin of a rocker at its pivot, and
  the kinematic solve adds the position of the pivot in the parent frame to the rotated
  local vector. The links use \<^verbatim>\<open>get_coords\<close> with the frame's own parent only:
  \<open>get_coords f x\<close> is \<^verbatim>\<open>f.get_coords(x, f.get_parent())\<close>, the point \<open>x\<close> of the frame in
  the coordinates of the parent. A frame whose origin is the origin of its parent has
  the zero vector as \<open>origin\<close>.
\<close>

record RefFrame =
  origin :: Vector
  rotation :: Matrix33

text \<open>
  Modelled from the spec: \<^verbatim>\<open>RefFrame.get_rotation\<close>, \<^verbatim>\<open>RefFrame.set_rotation\<close> and
  \<^verbatim>\<open>RefFrame.get_coords\<close> to the parent of the frame.
\<close>

definition get_rotation :: "RefFrame \<Rightarrow> Matrix33" where
  "get_rotation f = rotation f"

definition set_rotation :: "RefFrame \<Rightarrow> Matrix33 \<Rightarrow> RefFrame" where
  "set_rotation f R = f\<lparr>rotation := R\<rparr>"

definition get_coords :: "RefFrame \<Rightarrow> Vector \<Rightarrow> Vector" where
  "get_coords f x = Vector (vadd (v (origin f)) (mat_vec (rotation f) (v x)))"

text \<open>
  Modelled from the spec: function \<^verbatim>\<open>make_rotation\<close> of module \<^verbatim>\<open>dynamics\<close>, which is
  not among the sources: the rotation matrix for an axis label and an angle, with a flag
  that tells whether the angle is in degrees. A positive angle turns counterclockwise
  about the axis. \<^verbatim>\<open>components.py\<close> passes the labels \<^verbatim>\<open>'x'\<close> and \<^verbatim>\<open>'z'\<close> only.
\<close>

definition radians :: "real \<Rightarrow> bool \<Rightarrow> real" where
  "radians a deg = (if deg then a * pi / 180 else a)"

definition make_rotation :: "real \<Rightarrow> char \<Rightarrow> bool \<Rightarrow> Matrix33" where
  "make_rotation a axis deg =
     (let t = radians a deg; c = cos t; s = sin t in
      if axis = CHR ''x'' then ((1, 0, 0), (0, c, - s), (0, s, c))
      else if axis = CHR ''y'' then ((c, 0, s), (0, 1, 0), (- s, 0, c))
      else ((c, - s, 0), (s, c, 0), (0, 0, 1)))"

subsection \<open>Shock\<close>

text \<open>
  The class computes with the numbers it is given, by the operators \<^verbatim>\<open>+\<close>, \<^verbatim>\<open>-\<close> and
  \<^verbatim>\<open>*\<close> of their type \<open>'n\<close>: Python floats (\<open>pyfloat\<close>) when it is built from floats, as
  its annotations say, and numbers of sympy (\<open>scalar\<close>) in a \<^verbatim>\<open>LongAccel\<close>, which gives it
  a length and a force that sympy has computed.
\<close>

record 'n Shock =
  k :: 'n
  len :: 'n
  force :: 'n

definition Shock_init :: "'n \<Rightarrow> 'n \<Rightarrow> 'n \<Rightarrow> 'n Shock" where
  "Shock_init constant length0 force0 = \<lparr>k = constant, len = length0, force = force0\<rparr>"

definition get_force :: "('n::{plus, minus, times}) Shock \<Rightarrow> 'n \<Rightarrow> 'n" where
  "get_force sh new_len = force sh + k sh * (len sh - new_len)"

subsection \<open>Moment arms from unit vectors that may be undefined\<close>

text \<open>
  The cross product with a unit vector that may be undefined, and the third entry of
  the result: an undefined unit vector has \<^verbatim>\<open>nan\<close> entries, and so has its cross product.
\<close>

definition cross_unit :: "Vector \<Rightarrow> Vector option \<Rightarrow> Vector option" where
  "cross_unit a n = (case n of None \<Rightarrow> None | Some u \<Rightarrow> Some (cross a u))"

definition entry2_of :: "Vector option \<Rightarrow> scalar" where
  "entry2_of m = (case m of None \<Rightarrow> NonFinite | Some a \<Rightarrow> Fin (entry2 (v a)))"

subsection \<open>ControlArm\<close>

text \<open>\<^verbatim>\<open>str.lower\<close> on the letters of ASCII.\<close>

definition lower_char :: "char \<Rightarrow> char" where
  "lower_char c =
     (let n = (of_char c :: nat) in if 65 \<le> n \<and> n \<le> 90 then char_of (n + 32) else c)"

definition lower :: "string \<Rightarrow> string" where
  "lower s = map lower_char s"

record ControlArm =
  f_l :: Vector
  r_l :: Vector
  u_l :: Vector
  frame :: RefFrame
  p_l :: "Vector option"
  side :: string

definition ControlArm_init ::
  "Vector \<Rightarrow> Vector \<Rightarrow> RefFrame \<Rightarrow> Vector option \<Rightarrow> string \<Rightarrow> error + ControlArm" where
  "ControlArm_init rear upright frame0 prod0 side0 =
     (let si = lower side0 in
      if si \<noteq> ''r'' \<and> si \<noteq> ''l'' then Inl (ValueError ''invalid side'')
      else Inr \<lparr>f_l = Vector (0, 0, 0), r_l = rear, u_l = upright, frame = frame0,
                 p_l = prod0, side = side0\<rparr>)"

definition get_f_p :: "ControlArm \<Rightarrow> Vector" where
  "get_f_p c = get_coords (frame c) (f_l c)"

definition get_r_p :: "ControlArm \<Rightarrow> Vector" where
  "get_r_p c = get_coords (frame c) (r_l c)"

definition get_u_p :: "ControlArm \<Rightarrow> Vector" where
  "get_u_p c = get_coords (frame c) (u_l c)"

definition get_p_p :: "ControlArm \<Rightarrow> error + Vector" where
  "get_p_p c =
     (case p_l c of
        None \<Rightarrow> Inl (ValueError ''no push/pullrod hardpoint'')
      | Some p \<Rightarrow> Inr (get_coords (frame c) p))"

definition ControlArm_rotate :: "ControlArm \<Rightarrow> real \<Rightarrow> bool \<Rightarrow> ControlArm" where
  "ControlArm_rotate c a deg =
     (let a1 = (if side c = ''r'' then - a else a);
          rotation_l_new = make_rotation a1 CHR ''x'' deg;
          rotation_g_l = get_rotation (frame c)
      in c\<lparr>frame := set_rotation (frame c) (mat_mul rotation_g_l rotation_l_new)\<rparr>)"

subsection \<open>Rocker\<close>

text \<open>The frame of a rocker is the field \<open>frame_rocker\<close> (\<^verbatim>\<open>frame\<close> in the source).\<close>

record Rocker =
  pi_l :: Vector
  a_l :: Vector
  pr_l :: Vector
  s_l :: Vector
  frame_rocker :: RefFrame

definition Rocker_init :: "Vector \<Rightarrow> Vector \<Rightarrow> Vector \<Rightarrow> RefFrame \<Rightarrow> Rocker" where
  "Rocker_init arb prod0 shock0 frame0 =
     \<lparr>pi_l = Vector (0, 0, 0), a_l = arb, pr_l = prod0, s_l = shock0,
      frame_rocker = frame0\<rparr>"

definition get_pi_p :: "Rocker \<Rightarrow> Vector" where
  "get_pi_p r = get_coords (frame_rocker r) (pi_l r)"

definition get_a_p :: "Rocker \<Rightarrow> Vector" where
  "get_a_p r = get_coords (frame_rocker r) (a_l r)"

definition get_pr_p :: "Rocker \<Rightarrow> Vector" where
  "get_pr_p r = get_coords (frame_rocker r) (pr_l r)"

definition get_s_p :: "Rocker \<Rightarrow> Vector" where
  "get_s_p r = get_coords (frame_rocker r) (s_l r)"

definition Rocker_rotate :: "Rocker \<Rightarrow> real \<Rightarrow> bool \<Rightarrow> Rocker" where
  "Rocker_rotate r a deg =
     (let rotation_l_new = make_rotation a CHR ''z'' deg;
          rotation_g_l = get_rotation (frame_rocker r)
      in r\<lparr>frame_rocker :=
             set_rotation (frame_rocker r) (mat_mul rotation_g_l rotation_l_new)\<rparr>)"

subsection \<open>LongAccel\<close>

text \<open>
  The rod length is the field \<open>prod_len\<close> (\<^verbatim>\<open>prod\<close> in the source) and the side of the
  aggregate is \<open>side_la\<close> (\<^verbatim>\<open>side\<close> in the source).
\<close>

record LongAccel =
  ca :: ControlArm
  rocker :: Rocker
  shock :: "scalar Shock"
  prod_len :: real
  side_la :: string

text \<open>
  \<^verbatim>\<open>__make_shock\<close> reads \<^verbatim>\<open>self.ca\<close> and \<^verbatim>\<open>self.rocker\<close>, which the constructor has set
  before the call; they are the first two arguments.
\<close>

definition make_shock ::
  "ControlArm \<Rightarrow> Rocker \<Rightarrow> real \<Rightarrow> real \<Rightarrow> error + scalar Shock" where
  "make_shock c r constant f_prod =
     (let length0 = norm_v (get_s_p r) in
      case mat_inv (get_rotation (frame_rocker r)) of
        Inl e \<Rightarrow> Inl e
      | Inr r_l_p \<Rightarrow>
          (case get_p_p c of
             Inl e \<Rightarrow> Inl e
           | Inr p_p \<Rightarrow>
               (let l_prod = subtract (get_pr_p r) p_p;
                    l_prod1 = inv_vec r_l_p (v l_prod);
                    n_prod = unit_of l_prod1;
                    l_shock = inv_vec r_l_p (v (get_s_p r));
                    n_shock = unit_of l_shock;
                    m_prod = cross_unit (pr_l r) n_prod;
                    m_shock = cross_unit (s_l r) n_shock;
                    f_shock = sdiv (smul (Fin (- f_prod)) (entry2_of m_prod))
                                (entry2_of m_shock)
                in Inr (Shock_init (Fin constant) (Fin length0) f_shock))))"

definition LongAccel_init ::
  "ControlArm \<Rightarrow> Rocker \<Rightarrow> real \<Rightarrow> real \<Rightarrow> error + LongAccel" where
  "LongAccel_init c r constant f_prod =
     (case make_shock c r constant f_prod of
        Inl e \<Rightarrow> Inl e
      | Inr sh \<Rightarrow>
          (case get_p_p c of
             Inl e \<Rightarrow> Inl e
           | Inr p_p \<Rightarrow>
               Inr \<lparr>ca = c, rocker = r, shock = sh,
                    prod_len = norm_v (subtract (get_pr_p r) p_p), side_la = side c\<rparr>))"

text \<open>
  The residual \<^verbatim>\<open>eqn\<close> that \<^verbatim>\<open>rotate_ca\<close> builds from the symbol \<^verbatim>\<open>x\<close>, as a function of
  the value of \<^verbatim>\<open>x\<close>; the aggregate is the one whose control arm has been rotated
  already. Reading the rod hardpoint of the control arm may raise.
\<close>

definition eqn :: "LongAccel \<Rightarrow> error + (real \<Rightarrow> real)" where
  "eqn la =
     (case get_p_p (ca la) of
        Inl e \<Rightarrow> Inl e
      | Inr p_p \<Rightarrow>
          Inr (\<lambda>x.
            let r_l_n = make_rotation x CHR ''z'' False;
                r_p_l = get_rotation (frame_rocker (rocker la));
                r_p_n = mat_mul r_p_l r_l_n;
                pr_p = vadd (v (get_pi_p (rocker la))) (mat_vec r_p_n (v (pr_l (rocker la))));
                pr_len = vsub pr_p (v p_p);
                length0 = (prod_len la)\<^sup>2
            in (entry0 pr_len)\<^sup>2 + (entry1 pr_len)\<^sup>2 + (entry2 pr_len)\<^sup>2 - length0))"

text \<open>
  \<^verbatim>\<open>nsolve\<close> is sympy's root finder: a parameter of the model, which gets the residual
  and the seed and returns a number (\<^verbatim>\<open>float(nsolve(eqn, x, 0.0))\<close>) or raises.
  \<^verbatim>\<open>rotate_ca\<close> returns the aggregate as the call leaves it, also when it raises (the
  control arm is rotated before the solve), and the angle or the error.
\<close>

type_synonym solver = "(real \<Rightarrow> real) \<Rightarrow> real \<Rightarrow> error + real"

definition rotate_ca ::
  "solver \<Rightarrow> LongAccel \<Rightarrow> real \<Rightarrow> bool \<Rightarrow> LongAccel \<times> (error + real)" where
  "rotate_ca nsolve la a deg =
     (let la1 = la\<lparr>ca := ControlArm_rotate (ca la) a deg\<rparr> in
      case eqn la1 of
        Inl e \<Rightarrow> (la1, Inl e)
      | Inr residual \<Rightarrow>
          (case nsolve residual 0 of
             Inl e \<Rightarrow> (la1, Inl e)
           | Inr sol \<Rightarrow>
               (la1\<lparr>rocker := Rocker_rotate (rocker la1) sol False\<rparr>, Inr sol)))"

definition get_forces :: "LongAccel \<Rightarrow> error + (scalar \<times> scalar)" where
  "get_forces la =
     (let pr_p = get_pr_p (rocker la);
          s_p = get_s_p (rocker la)
      in case mat_inv (get_rotation (frame_rocker (rocker la))) of
           Inl e \<Rightarrow> Inl e
         | Inr r_l_p \<Rightarrow>
             (case get_p_p (ca la) of
                Inl e \<Rightarrow> Inl e
              | Inr p_p \<Rightarrow>
                  (let l_prod = inv_vec r_l_p (vsub (v pr_p) (v p_p));
                       n_prod = unit_of l_prod;
                       l_shock = inv_vec r_l_p (v s_p);
                       n_shock = unit_of l_shock;
                       m_prod = cross_unit (pr_l (rocker la)) n_prod;
                       m_shock = cross_unit (s_l (rocker la)) n_shock;
                       length0 = norm_v s_p;
                       f_shock = get_force (shock la) (Fin length0);
                       f_prod = sdiv (smul (sneg f_shock) (entry2_of m_shock))
                                  (entry2_of m_prod)
                   in Inr (f_shock, f_prod))))"

text \<open>
  The two moment-arm scalars of the moment balance about the rocker pivot, as
  \<^verbatim>\<open>__make_shock\<close> and \<^verbatim>\<open>get_forces\<close> both compute them: the third local entry of the
  hardpoint crossed with the unit direction of the force. They are defined when
  inverting the rotation of the rocker does not raise and the control arm has a rod
  hardpoint.
\<close>

definition moment_arms :: "ControlArm \<Rightarrow> Rocker \<Rightarrow> (scalar \<times> scalar) option" where
  "moment_arms c r =
     (case mat_inv (get_rotation (frame_rocker r)) of
        Inl e \<Rightarrow> None
      | Inr r_l_p \<Rightarrow>
          (case get_p_p c of
             Inl e \<Rightarrow> None
           | Inr p_p \<Rightarrow>
               Some (entry2_of (cross_unit (pr_l r)
                       (unit_of (inv_vec r_l_p (v (subtract (get_pr_p r) p_p))))),
                     entry2_of (cross_unit (s_l r)
                       (unit_of (inv_vec r_l_p (v (get_s_p r))))))))"

text \<open>
  The aggregates that exist: the ones a constructor call returns, for a rocker that its
  own constructor has built, and the ones a call of \<^verbatim>\<open>rotate_ca\<close> leaves behind, whether
  it returns or raises.
\<close>

inductive aggregate :: "LongAccel \<Rightarrow> bool" where
  constructed:
    "LongAccel_init c (Rocker_init arb prod0 shock0 frame0) constant f_prod = Inr la
     \<Longrightarrow> aggregate la"
| rotated:
    "aggregate la \<Longrightarrow> rotate_ca nsolve la a deg = (la1, res) \<Longrightarrow> aggregate la1"

subsection \<open>Two assemblies\<close>

text \<open>
  A left control arm with its rod hardpoint at \<open>(-2, 1, 0)\<close> and a rocker whose pivot is
  at \<open>(-1, 0, 0)\<close> in the parent frame, both unrotated; the rod has length 1.
\<close>

definition ex_ca :: ControlArm where
  "ex_ca = \<lparr>f_l = Vector (0, 0, 0), r_l = Vector (0, 3, 0), u_l = Vector (0, 4, 0),
            frame = \<lparr>origin = Vector (0, 0, 0), rotation = eye3\<rparr>,
            p_l = Some (Vector (- 2, 1, 0)), side = ''l''\<rparr>"

definition ex_rocker :: Rocker where
  "ex_rocker = \<lparr>pi_l = Vector (0, 0, 0), a_l = Vector (0, 0, 1), pr_l = Vector (0, 1, 0),
                s_l = Vector (1, 1, 0),
                frame_rocker = \<lparr>origin = Vector (- 1, 0, 0), rotation = eye3\<rparr>\<rparr>"

definition ex_la :: LongAccel where
  "ex_la = \<lparr>ca = ex_ca, rocker = ex_rocker,
            shock = \<lparr>k = Fin 50000, len = Fin 1, force = Fin 1000\<rparr>,
            prod_len = 1, side_la = ''l''\<rparr>"

text \<open>
  A left control arm with its rod hardpoint at \<open>(0, 5, 0)\<close> and a rocker whose pivot is
  at \<open>(0, 5, 0)\<close> in the parent frame; the rod has length 1 and lies along the arm of
  the rocker that holds it, so the rod moment arm is zero.
\<close>

definition far_ca :: ControlArm where
  "far_ca = \<lparr>f_l = Vector (0, 0, 0), r_l = Vector (0, 3, 0), u_l = Vector (0, 4, 0),
             frame = \<lparr>origin = Vector (0, 0, 0), rotation = eye3\<rparr>,
             p_l = Some (Vector (0, 5, 0)), side = ''l''\<rparr>"

definition far_rocker :: Rocker where
  "far_rocker = \<lparr>pi_l = Vector (0, 0, 0), a_l = Vector (0, 0, 1), pr_l = Vector (1, 0, 0),
                 s_l = Vector (1, - 5, 0),
                 frame_rocker = \<lparr>origin = Vector (0, 5, 0), rotation = eye3\<rparr>\<rparr>"

definition far_la :: LongAccel where
  "far_la = \<lparr>ca = far_ca, rocker = far_rocker,
             shock = \<lparr>k = Fin 50000, len = Fin 1, force = Fin 0\<rparr>,
             prod_len = 1, side_la = ''l''\<rparr>"

text \<open>A root finder that returns half a turn.\<close>

definition pi_solver :: solver where
  "pi_solver residual x0 = Inr pi"

section \<open>Properties\<close>

subsection \<open>Matrices and rotations\<close>

lemma mat_mul_assoc: "mat_mul (mat_mul A B) C = mat_mul A (mat_mul B C)"
  by (cases A rule: transpose33.cases, cases B rule: transpose33.cases,
      cases C rule: transpose33.cases) (simp add: mat_mul_def algebra_simps)

lemma mat_mul_eye3: "mat_mul A eye3 = A"
  by (cases A rule: transpose33.cases) (simp add: mat_mul_def eye3_def)

lemma radians_minus: "radians (- a) deg = - radians a deg"
  by (simp add: radians_def)

lemma cos_sin_squares: "cos t * cos t + sin t * sin t = (1::real)"
  using sin_cos_squared_add2 [of t] by (simp add: power2_eq_square)

lemma sin_cos_squares: "sin t * sin t + cos t * cos t = (1::real)"
  using cos_sin_squares [of t] by (simp add: add.commute)

lemma make_rotation_inverse:
  "mat_mul (make_rotation a axis deg) (make_rotation (- a) axis deg) = eye3"
  by (simp add: make_rotation_def Let_def radians_minus mat_mul_def eye3_def
      cos_sin_squares sin_cos_squares)

lemma rotate_back:
  "mat_mul (mat_mul R (make_rotation a axis deg)) (make_rotation (- a) axis deg) = R"
  by (simp add: mat_mul_assoc make_rotation_inverse mat_mul_eye3)

lemma ControlArm_rotate_back: "ControlArm_rotate (ControlArm_rotate c a deg) (- a) deg = c"
  using rotate_back [of "rotation (frame c)" a "CHR ''x''" deg]
    rotate_back [of "rotation (frame c)" "- a" "CHR ''x''" deg]
  by (simp add: ControlArm_rotate_def Let_def get_rotation_def set_rotation_def)

lemma Rocker_rotate_back: "Rocker_rotate (Rocker_rotate r a deg) (- a) deg = r"
  using rotate_back [of "rotation (frame_rocker r)" a "CHR ''z''" deg]
  by (simp add: Rocker_rotate_def Let_def get_rotation_def set_rotation_def)

subsection \<open>Arithmetic of the two kinds of numbers\<close>

lemma scalar_arith [simp]:
  "Fin a + Fin b = Fin (a + b)" "Fin a - Fin b = Fin (a - b)" "Fin a * Fin b = Fin (a * b)"
  "NonFinite + x = NonFinite" "x + NonFinite = NonFinite"
  "NonFinite * x = NonFinite" "x * NonFinite = NonFinite"
  "NonFinite - x = NonFinite" "x - NonFinite = NonFinite"
  by (cases x; simp add: plus_scalar_def minus_scalar_def times_scalar_def)+

lemma round_zero: "round_to_double 0 e = Finite 0 0"
  by (simp add: round_to_double_def pack_def normalize.simps bit_length.simps Let_def)

lemma normalize_odd: "odd m \<Longrightarrow> normalize m e = (m, e)"
  by (subst normalize.simps) auto

lemma normalize_odd_pow: "odd m \<Longrightarrow> normalize (m * 2 ^ j) e = (m, e + int j)"
proof (induction j arbitrary: e)
  case 0
  then show ?case by (simp add: normalize_odd)
next
  case (Suc j)
  have "normalize (m * 2 ^ Suc j) e = normalize (m * 2 ^ j) (e + 1)"
    using Suc.prems by (subst normalize.simps) auto
  with Suc show ?case by simp
qed

lemma bit_length_double: "0 < a \<Longrightarrow> bit_length (2 * a) = 1 + bit_length a"
  by (subst bit_length.simps) simp

lemma bit_length_pow: "0 < a \<Longrightarrow> bit_length (a * 2 ^ j) = bit_length a + int j"
proof (induction j)
  case 0
  then show ?case by simp
next
  case (Suc j)
  have "bit_length (a * 2 ^ Suc j) = bit_length (2 * (a * 2 ^ j))"
    by (simp add: mult.commute mult.left_commute)
  also have "\<dots> = 1 + bit_length (a * 2 ^ j)"
    using Suc.prems by (intro bit_length_double) simp
  finally show ?case using Suc by simp
qed

lemma pack_odd:
  "odd m \<Longrightarrow> bit_length \<bar>m\<bar> + (e + int j) \<le> 1024 \<Longrightarrow>
   pack (m * 2 ^ j) e = Finite m (e + int j)"
  by (simp add: pack_def normalize_odd_pow)

text \<open>A number that is a double is rounded to itself, however it is written.\<close>

lemma round_exact:
  assumes odd: "odd m" and bits: "bit_length \<bar>m\<bar> \<le> 53" and lo: "- 1074 \<le> e"
    and hi: "bit_length \<bar>m\<bar> + (e + int j) \<le> 1024"
  shows "round_to_double (m * 2 ^ j) e = Finite m (e + int j)"
proof -
  from odd have nz: "0 < \<bar>m\<bar>" by auto
  have n: "bit_length \<bar>m * 2 ^ j\<bar> = bit_length \<bar>m\<bar> + int j"
    using bit_length_pow [OF nz, of j] by (simp add: abs_mult)
  let ?shift = "max (bit_length \<bar>m\<bar> + int j - 53) (- 1074 - e)"
  show ?thesis
  proof (cases "?shift \<le> 0")
    case True
    then show ?thesis
      using pack_odd [OF odd hi] by (simp add: round_to_double_def Let_def n)
  next
    case False
    with lo have shift: "?shift = bit_length \<bar>m\<bar> + int j - 53" and pos: "0 < ?shift"
      by auto
    define s where "s = nat ?shift"
    from shift pos bits have sj: "s \<le> j" and s0: "0 < s" by (auto simp: s_def)
    then obtain i where j: "j = s + i" using le_Suc_ex by blast
    have pw: "(2::int) ^ j = 2 ^ i * 2 ^ s" by (simp add: j power_add)
    have q0: "\<bar>m * 2 ^ j\<bar> div 2 ^ s = \<bar>m\<bar> * 2 ^ i"
      by (simp add: abs_mult pw)
    have r: "\<bar>m * 2 ^ j\<bar> mod 2 ^ s = 0"
      by (simp add: abs_mult pw)
    have half: "(0::int) < 2 ^ s div 2" using s0 by (cases s) simp_all
    have sg: "sgn (m * 2 ^ j) * (\<bar>m\<bar> * 2 ^ i) = m * 2 ^ i"
      by (simp add: sgn_mult mult.assoc [symmetric] mult_sgn_abs)
    have sh: "?shift = int s" using pos by (simp add: s_def)
    have "round_to_double (m * 2 ^ j) e = pack (m * 2 ^ i) (e + int s)"
      using half s0 unfolding round_to_double_def Let_def n sh
      by (simp add: q0 r sg del: abs_mult)
    also have "\<dots> = Finite m (e + int s + int i)"
      using hi by (intro pack_odd [OF odd]) (simp add: j)
    finally show ?thesis by (simp add: j)
  qed
qed

lemma fadd_zero: "is_finite_double x \<Longrightarrow> fadd x (Finite 0 0) = x"
proof (cases x)
  case (Finite m e)
  assume wf: "is_finite_double x"
  show ?thesis
  proof (cases "m = 0")
    case True
    with wf Finite show ?thesis by (simp add: round_zero)
  next
    case False
    with wf Finite have odd: "odd m" and bits: "bit_length \<bar>m\<bar> \<le> 53"
      and lo: "- 1074 \<le> e" and hi: "bit_length \<bar>m\<bar> + e \<le> 1024" by auto
    show ?thesis
    proof (cases "e \<le> 0")
      case True
      then show ?thesis
        using round_exact [OF odd bits lo, of 0] hi Finite by (simp add: min_def)
    next
      case False
      then have "round_to_double (m * 2 ^ nat e) 0 = Finite m e"
        using round_exact [OF odd bits, of 0 "nat e"] hi by simp
      with False show ?thesis using Finite by (simp add: min_def)
    qed
  qed
qed simp_all

lemma fsub_self: "fsub (Finite m e) (Finite m e) = Finite 0 0"
  by (simp add: fsub_def round_zero)

subsection \<open>The spring\<close>

text \<open>
  Claim C7, as the code has it. For all floats that are numbers, a stiffness, a
  reference length \<open>L0\<close> and a reference force \<open>F0\<close>, the spring returns exactly \<open>F0\<close> at
  the length \<open>L0\<close>, and at every length \<open>l\<close> the float \<open>F0 + k * (L0 - l)\<close>, each operator
  rounding. In exact arithmetic, that of the numbers of the aggregate, the force at the
  length \<open>L0 - d\<close> is \<open>F0 + k * d\<close>.
\<close>

theorem get_force_linear:
  assumes "is_finite_double stiffness" "is_finite_double L0" "is_finite_double F0"
  shows "get_force (Shock_init stiffness L0 F0) L0 = F0 \<and>
         get_force (Shock_init stiffness L0 F0) l = F0 + stiffness * (L0 - l) \<and>
         get_force (Shock_init (Fin kr) (Fin Lr) (Fin Fr)) (Fin (Lr - d)) = Fin (Fr + kr * d)"
proof -
  from assms obtain mk ek ml el
    where "stiffness = Finite mk ek" and "L0 = Finite ml el"
    by (cases stiffness; cases L0) simp_all
  then have "F0 + stiffness * (L0 - L0) = F0"
    using assms(3)
    by (simp add: plus_pyfloat_def minus_pyfloat_def times_pyfloat_def fsub_self round_zero
        fadd_zero)
  then show ?thesis by (simp add: get_force_def Shock_init_def)
qed

text \<open>
  The stiffness 50000, the reference length 0.25 and the reference force 1000; the
  length is 0.24 and the force there 1500.
\<close>

theorem get_force_linear_witness:
  "get_force (Shock_init (Finite 3125 4) (Finite 1 (- 2)) (Finite 125 3)) (Finite 1 (- 2))
     = Finite 125 3 \<and>
   get_force (Shock_init (Finite 3125 4) (Finite 1 (- 2)) (Finite 125 3))
       (Finite 1080863910568919 (- 52))
     = Finite 125 3 + Finite 3125 4 * (Finite 1 (- 2) - Finite 1080863910568919 (- 52)) \<and>
   get_force (Shock_init (Fin 50000) (Fin (1 / 4)) (Fin 1000)) (Fin (1 / 4 - 1 / 100))
     = Fin 1500"
proof -
  have "is_finite_double (Finite 3125 4)" "is_finite_double (Finite 1 (- 2))"
    "is_finite_double (Finite 125 3)"
    by code_simp+
  from get_force_linear [OF this, of "Finite 1080863910568919 (- 52)" 50000 "1 / 4" 1000
      "1 / 100"]
  show ?thesis by simp
qed

text \<open>
  In floats the force at the length \<open>L0 - d\<close> is not always \<open>F0 + k * d\<close>: with the
  stiffness 50000, \<open>L0 = 0.25\<close>, \<open>F0 = 1000\<close> and \<open>d\<close> the double next to 0.01, the first
  is \<open>3298534883328001 * 2 ^ - 41\<close>, which Python prints as 1500.0000000000005, and the
  second is 1500.
\<close>

theorem get_force_linear_counterexample:
  "get_force (Shock_init (Finite 3125 4) (Finite 1 (- 2)) (Finite 125 3))
       (Finite 1 (- 2) - Finite 5764607523034235 (- 59))
     = Finite 3298534883328001 (- 41) \<and>
   Finite 125 3 + Finite 3125 4 * Finite 5764607523034235 (- 59) = Finite 375 2 \<and>
   get_force (Shock_init (Finite 3125 4) (Finite 1 (- 2)) (Finite 125 3))
       (Finite 1 (- 2) - Finite 5764607523034235 (- 59))
     \<noteq> Finite 125 3 + Finite 3125 4 * Finite 5764607523034235 (- 59)"
proof -
  have a: "fadd (Finite 125 3) (fmul (Finite 3125 4) (fsub (Finite 1 (- 2))
             (fsub (Finite 1 (- 2)) (Finite 5764607523034235 (- 59)))))
           = Finite 3298534883328001 (- 41)"
    by code_simp
  have b: "fadd (Finite 125 3) (fmul (Finite 3125 4) (Finite 5764607523034235 (- 59)))
           = Finite 375 2"
    by code_simp
  show ?thesis
    by (simp add: get_force_def Shock_init_def plus_pyfloat_def minus_pyfloat_def
        times_pyfloat_def a b del: fadd.simps fmul.simps)
qed

subsection \<open>The rod hardpoint of a control arm\<close>

text \<open>
  Claim C8. Asking a control arm for its rod hardpoint in the parent frame raises exactly
  when the control arm was constructed without a rod hardpoint; with a rod hardpoint the
  query returns its position in the parent frame.
\<close>

theorem get_p_p_raises_iff:
  "ControlArm_init rear upright frame0 prod0 side0 = Inr c \<Longrightarrow>
   ((\<exists>e. get_p_p c = Inl e) \<longleftrightarrow> prod0 = None) \<and>
   (\<forall>p. prod0 = Some p \<longrightarrow> get_p_p c = Inr (get_coords frame0 p))"
  by (auto simp: ControlArm_init_def get_p_p_def Let_def split: if_splits option.splits)

subsection \<open>Rotating a link forth and back\<close>

text \<open>
  Claim C9. Rotating a control arm or a rocker by an angle \<open>a\<close> and then by \<open>- a\<close> restores
  the position in the parent frame of every hardpoint of the link.
\<close>

theorem rotate_round_trip:
  "get_f_p (ControlArm_rotate (ControlArm_rotate c a deg) (- a) deg) = get_f_p c \<and>
   get_r_p (ControlArm_rotate (ControlArm_rotate c a deg) (- a) deg) = get_r_p c \<and>
   get_u_p (ControlArm_rotate (ControlArm_rotate c a deg) (- a) deg) = get_u_p c \<and>
   get_p_p (ControlArm_rotate (ControlArm_rotate c a deg) (- a) deg) = get_p_p c \<and>
   get_pi_p (Rocker_rotate (Rocker_rotate r a deg) (- a) deg) = get_pi_p r \<and>
   get_a_p (Rocker_rotate (Rocker_rotate r a deg) (- a) deg) = get_a_p r \<and>
   get_pr_p (Rocker_rotate (Rocker_rotate r a deg) (- a) deg) = get_pr_p r \<and>
   get_s_p (Rocker_rotate (Rocker_rotate r a deg) (- a) deg) = get_s_p r"
  by (simp add: ControlArm_rotate_back Rocker_rotate_back)

subsection \<open>Evaluating the two assemblies\<close>

lemma lower_l: "lower ''l'' = ''l''"
  by code_simp

lemma lower_R: "lower ''R'' = ''r''"
  by code_simp

lemma mat_inv_eye3: "mat_inv eye3 = Inr (Some eye3)"
  by (simp add: mat_inv_def eye3_def)

lemma mat_vec_eye3: "mat_vec eye3 x = x"
  by (cases x) (simp add: eye3_def)

lemma mat_mul_eye3_left: "mat_mul eye3 A = A"
  by (cases A rule: transpose33.cases) (simp add: mat_mul_def eye3_def)

lemma half_turn: "radians 180 True = pi" "radians pi False = pi"
  by (simp_all add: radians_def)

lemmas eval_simps = get_rotation_def mat_inv_eye3 mat_vec_eye3 get_p_p_def
  get_coords_def get_s_p_def get_pr_p_def get_pi_p_def norm_v_def subtract_def unit_def
  cross_unit_def cross_def entry2_of_def Shock_init_def get_force_def inv_vec_def
  unit_of_def

lemma ex_rocker_init:
  "Rocker_init (Vector (0, 0, 1)) (Vector (0, 1, 0)) (Vector (1, 1, 0))
     \<lparr>origin = Vector (- 1, 0, 0), rotation = eye3\<rparr> = ex_rocker"
  by (simp add: Rocker_init_def ex_rocker_def)

lemma ex_make_shock:
  "make_shock ex_ca ex_rocker 50000 1000
     = Inr \<lparr>k = Fin 50000, len = Fin 1, force = Fin 1000\<rparr>"
  by (simp add: make_shock_def ex_ca_def ex_rocker_def eval_simps)

lemma ex_la_init: "LongAccel_init ex_ca ex_rocker 50000 1000 = Inr ex_la"
  by (simp add: LongAccel_init_def ex_make_shock)
    (simp add: ex_la_def ex_ca_def ex_rocker_def eval_simps)

lemma ex_aggregate: "aggregate ex_la"
  using aggregate.constructed [of ex_ca "Vector (0, 0, 1)" "Vector (0, 1, 0)"
      "Vector (1, 1, 0)" "\<lparr>origin = Vector (- 1, 0, 0), rotation = eye3\<rparr>" 50000 1000 ex_la]
  by (simp add: ex_rocker_init ex_la_init)

lemma ex_ca_half_turn:
  "ControlArm_rotate ex_ca 180 True =
     ex_ca\<lparr>frame := \<lparr>origin = Vector (0, 0, 0),
                      rotation = ((1, 0, 0), (0, - 1, 0), (0, 0, - 1))\<rparr>\<rparr>"
  by (simp add: ControlArm_rotate_def ex_ca_def get_rotation_def set_rotation_def
      mat_mul_eye3_left make_rotation_def half_turn Let_def)

lemma ex_rocker_half_turn:
  "Rocker_rotate ex_rocker pi False =
     ex_rocker\<lparr>frame_rocker := \<lparr>origin = Vector (- 1, 0, 0),
                                 rotation = ((- 1, 0, 0), (0, - 1, 0), (0, 0, 1))\<rparr>\<rparr>"
  by (simp add: Rocker_rotate_def ex_rocker_def get_rotation_def set_rotation_def
      mat_mul_eye3_left make_rotation_def half_turn Let_def)

lemma ex_eqn_root:
  "case eqn (ex_la\<lparr>ca := ControlArm_rotate (ca ex_la) 180 True\<rparr>) of
     Inl e \<Rightarrow> False | Inr residual \<Rightarrow> residual pi = 0"
  by (simp add: ex_la_def ex_ca_half_turn eqn_def)
    (simp add: ex_ca_def ex_rocker_def get_p_p_def get_coords_def get_pi_p_def
      get_rotation_def mat_mul_eye3_left make_rotation_def half_turn Let_def mat_vec_eye3)

lemma ex_rotate_ca:
  "rotate_ca pi_solver ex_la 180 True =
     (ex_la\<lparr>ca := ControlArm_rotate ex_ca 180 True,
            rocker := Rocker_rotate ex_rocker pi False\<rparr>, Inr pi)"
  using ex_eqn_root
  by (auto simp: rotate_ca_def pi_solver_def ex_la_def split: sum.splits)

theorem get_p_p_raises_iff_witness:
  "ControlArm_init (Vector (0, 3, 0)) (Vector (0, 4, 0))
     \<lparr>origin = Vector (0, 0, 0), rotation = eye3\<rparr> None ''l''
     = Inr (ex_ca\<lparr>p_l := None\<rparr>) \<and>
   (\<exists>e. get_p_p (ex_ca\<lparr>p_l := None\<rparr>) = Inl e) \<and>
   ControlArm_init (Vector (0, 3, 0)) (Vector (0, 4, 0))
     \<lparr>origin = Vector (0, 0, 0), rotation = eye3\<rparr> (Some (Vector (- 2, 1, 0))) ''l''
     = Inr ex_ca \<and>
   get_p_p ex_ca = Inr (Vector (- 2, 1, 0))"
proof -
  have none: "ControlArm_init (Vector (0, 3, 0)) (Vector (0, 4, 0))
      \<lparr>origin = Vector (0, 0, 0), rotation = eye3\<rparr> None ''l'' = Inr (ex_ca\<lparr>p_l := None\<rparr>)"
    by (simp add: ControlArm_init_def lower_l ex_ca_def)
  have some: "ControlArm_init (Vector (0, 3, 0)) (Vector (0, 4, 0))
      \<lparr>origin = Vector (0, 0, 0), rotation = eye3\<rparr> (Some (Vector (- 2, 1, 0))) ''l''
      = Inr ex_ca"
    by (simp add: ControlArm_init_def lower_l ex_ca_def)
  from get_p_p_raises_iff [OF none] get_p_p_raises_iff [OF some] none some
  show ?thesis by (simp add: get_coords_def mat_vec_eye3)
qed

subsection \<open>The rigid rod\<close>

lemma mat_vec_zero: "mat_vec R (0, 0, 0) = (0, 0, 0)"
  by (cases R rule: transpose33.cases) simp

lemma vadd_zero: "vadd x (0, 0, 0) = x"
  by (cases x) simp

lemma sum_squares_dot: "(entry0 d)\<^sup>2 + (entry1 d)\<^sup>2 + (entry2 d)\<^sup>2 = dot d d"
  by (cases d) (simp add: power2_eq_square)

lemma get_pi_p_origin:
  "pi_l r = Vector (0, 0, 0) \<Longrightarrow> get_pi_p r = origin (frame_rocker r)"
  by (simp add: get_pi_p_def get_coords_def mat_vec_zero vadd_zero)

lemma norm_v_nonneg: "0 \<le> norm_v a"
  by (simp add: norm_v_def) (cases "v a", simp)

lemma rotate_ca_prod_len:
  "rotate_ca nsolve la a deg = (la1, res) \<Longrightarrow> prod_len la1 = prod_len la"
  by (auto simp: rotate_ca_def Let_def split: sum.splits)

lemma rotate_ca_pi_l:
  "rotate_ca nsolve la a deg = (la1, res) \<Longrightarrow> pi_l (rocker la1) = pi_l (rocker la)"
  by (auto simp: rotate_ca_def Let_def Rocker_rotate_def split: sum.splits)

lemma rotate_ca_p_l:
  "rotate_ca nsolve la a deg = (la1, res) \<Longrightarrow> p_l (ca la1) = p_l (ca la)"
  by (auto simp: rotate_ca_def Let_def ControlArm_rotate_def split: sum.splits)

lemma LongAccel_init_fields:
  "LongAccel_init c r stiffness f_prod = Inr la \<Longrightarrow>
   ca la = c \<and> rocker la = r \<and> side_la la = side c \<and>
   (\<exists>p_p. get_p_p c = Inr p_p \<and> prod_len la = norm_v (subtract (get_pr_p r) p_p))"
  by (auto simp: LongAccel_init_def split: sum.splits)

lemma aggregate_invariant:
  "aggregate la \<Longrightarrow>
   pi_l (rocker la) = Vector (0, 0, 0) \<and> 0 \<le> prod_len la \<and> p_l (ca la) \<noteq> None"
proof (induction rule: aggregate.induct)
  case (constructed c arb prod0 shock0 frame0 stiffness f_prod la)
  from LongAccel_init_fields [OF constructed]
  show ?case
    by (auto simp: Rocker_init_def norm_v_nonneg get_p_p_def split: option.splits)
next
  case (rotated la nsolve a deg la1 res)
  then show ?case
    by (simp add: rotate_ca_prod_len rotate_ca_pi_l rotate_ca_p_l)
qed

text \<open>
  Claim C1. For every aggregate and every angle of the control arm for which
  \<^verbatim>\<open>rotate_ca\<close> returns, the root finder having returned an exact root of the residual,
  the distance in the parent frame between the rod hardpoint of the control arm and the
  rod hardpoint of the rocker after the call is the rod length that the aggregate stores,
  which the call leaves as it was.
\<close>

theorem rotate_ca_keeps_rod_length:
  assumes agg: "aggregate la"
    and call: "rotate_ca nsolve la a deg = (la1, Inr sol)"
    and root: "case eqn (la\<lparr>ca := ControlArm_rotate (ca la) a deg\<rparr>) of
                 Inl e \<Rightarrow> False | Inr residual \<Rightarrow> residual sol = 0"
  shows "\<exists>p_p. get_p_p (ca la1) = Inr p_p \<and>
           norm_v (subtract (get_pr_p (rocker la1)) p_p) = prod_len la1 \<and>
           prod_len la1 = prod_len la"
proof -
  let ?la = "la\<lparr>ca := ControlArm_rotate (ca la) a deg\<rparr>"
  from agg have pi: "pi_l (rocker la) = Vector (0, 0, 0)" and nonneg: "0 \<le> prod_len la"
    by (simp_all add: aggregate_invariant)
  from root obtain residual
    where res: "eqn ?la = Inr residual" and root0: "residual sol = 0"
    by (auto split: sum.splits)
  from res obtain p_p where p_p: "get_p_p (ca ?la) = Inr p_p"
    by (auto simp: eqn_def split: sum.splits)
  from call res have la1: "la1 = ?la\<lparr>rocker := Rocker_rotate (rocker ?la) sol False\<rparr>"
    by (auto simp: rotate_ca_def Let_def split: sum.splits)
  let ?d = "vsub (v (get_pr_p (rocker la1))) (v p_p)"
  from res p_p have "residual sol = dot ?d ?d - (prod_len la)\<^sup>2"
    by (auto simp: eqn_def Let_def la1 sum_squares_dot get_pi_p_origin pi get_pr_p_def
        get_coords_def Rocker_rotate_def get_rotation_def set_rotation_def)
  with root0 have "dot ?d ?d = (prod_len la)\<^sup>2" by simp
  then have "norm_v (subtract (get_pr_p (rocker la1)) p_p) = prod_len la"
    using nonneg by (simp add: norm_v_def subtract_def)
  moreover have "get_p_p (ca la1) = Inr p_p" using p_p by (simp add: la1)
  moreover have "prod_len la1 = prod_len la" by (simp add: la1)
  ultimately show ?thesis by simp
qed

theorem rotate_ca_keeps_rod_length_witness:
  "rotate_ca pi_solver ex_la 180 True =
     (ex_la\<lparr>ca := ControlArm_rotate ex_ca 180 True,
            rocker := Rocker_rotate ex_rocker pi False\<rparr>, Inr pi) \<and>
   get_p_p (ControlArm_rotate ex_ca 180 True) = Inr (Vector (- 2, - 1, 0)) \<and>
   get_pr_p (Rocker_rotate ex_rocker pi False) = Vector (- 1, - 1, 0) \<and>
   norm_v (subtract (Vector (- 1, - 1, 0)) (Vector (- 2, - 1, 0))) = 1 \<and>
   prod_len ex_la = 1"
proof -
  have p: "get_p_p (ControlArm_rotate ex_ca 180 True) = Inr (Vector (- 2, - 1, 0))"
    by (simp add: ex_ca_half_turn) (simp add: ex_ca_def get_p_p_def get_coords_def)
  have q: "get_pr_p (Rocker_rotate ex_rocker pi False) = Vector (- 1, - 1, 0)"
    by (simp add: ex_rocker_half_turn) (simp add: ex_rocker_def get_pr_p_def get_coords_def)
  from rotate_ca_keeps_rod_length [OF ex_aggregate ex_rotate_ca ex_eqn_root]
  show ?thesis using p q by (simp add: ex_rotate_ca) (simp add: ex_la_def)
qed

subsection \<open>The moment balance\<close>

lemma make_shock_moment_arms:
  assumes "moment_arms c r = Some (m_prod, m_shock)"
  shows "make_shock c r stiffness f_prod =
    Inr (Shock_init (Fin stiffness) (Fin (norm_v (get_s_p r)))
      (sdiv (smul (Fin (- f_prod)) m_prod) m_shock))"
  using assms
  by (auto simp: moment_arms_def make_shock_def Let_def split: sum.splits)

lemma get_forces_moment_arms:
  assumes "moment_arms (ca la) (rocker la) = Some (m_prod, m_shock)"
  shows "get_forces la =
    Inr (get_force (shock la) (Fin (norm_v (get_s_p (rocker la)))),
         sdiv (smul (sneg (get_force (shock la) (Fin (norm_v (get_s_p (rocker la))))))
           m_shock) m_prod)"
  using assms
  by (auto simp: moment_arms_def get_forces_def Let_def subtract_def split: sum.splits)

lemma LongAccel_init_shock:
  "LongAccel_init c r stiffness f_prod = Inr la \<Longrightarrow>
   make_shock c r stiffness f_prod = Inr (shock la) \<and> ca la = c \<and> rocker la = r"
  by (auto simp: LongAccel_init_def split: sum.splits)

lemma ex_moment_arms: "moment_arms ex_ca ex_rocker = Some (Fin (- 1), Fin 1)"
  by (simp add: moment_arms_def ex_ca_def ex_rocker_def eval_simps)

text \<open>
  Claim C2. For every aggregate whose rod and shock moment arms are finite and not zero,
  \<^verbatim>\<open>get_forces\<close> right after the construction, with no rotation in between, returns the
  rod force \<open>f_prod\<close> that the constructor was given (and the reference force of the
  shock as the shock force).
\<close>

theorem get_forces_after_construction:
  assumes init: "LongAccel_init c r stiffness f_prod = Inr la"
    and arms: "moment_arms c r = Some (Fin m_prod, Fin m_shock)"
    and nz: "m_prod \<noteq> 0" "m_shock \<noteq> 0"
  shows "get_forces la = Inr (Fin (- f_prod * m_prod / m_shock), Fin f_prod)"
proof -
  from LongAccel_init_shock [OF init] make_shock_moment_arms [OF arms, of stiffness f_prod]
  have sh: "shock la = Shock_init (Fin stiffness) (Fin (norm_v (get_s_p r)))
      (Fin (- f_prod * m_prod / m_shock))"
    and c: "ca la = c" and r: "rocker la = r"
    using nz by simp_all
  have "get_force (shock la) (Fin (norm_v (get_s_p r))) = Fin (- f_prod * m_prod / m_shock)"
    by (simp add: sh get_force_def Shock_init_def)
  with get_forces_moment_arms [of la "Fin m_prod" "Fin m_shock"] arms c r nz
  show ?thesis by simp
qed

theorem get_forces_after_construction_witness:
  "LongAccel_init ex_ca ex_rocker 50000 1000 = Inr ex_la \<and>
   moment_arms ex_ca ex_rocker = Some (Fin (- 1), Fin 1) \<and>
   get_forces ex_la = Inr (Fin 1000, Fin 1000)"
  using get_forces_after_construction [OF ex_la_init ex_moment_arms]
  by (simp add: ex_la_init ex_moment_arms)

text \<open>
  Claim C3, as the code has it. At every construction the spring gets the stiffness
  given and, as its reference length, the norm of the position of the shock hardpoint in
  the parent frame, which is its distance from the origin of the parent frame; for finite
  moment arms with \<open>m_shock\<close> not zero its reference force is
  \<open>- f_rod * m_rod / m_shock\<close>.
\<close>

theorem make_shock_reference_state:
  assumes init: "LongAccel_init c r stiffness f_prod = Inr la"
  shows "k (shock la) = Fin stiffness \<and>
         len (shock la) = Fin (norm_v (get_s_p r)) \<and>
         (\<forall>m_prod m_shock.
            moment_arms c r = Some (Fin m_prod, Fin m_shock) \<and> m_shock \<noteq> 0 \<longrightarrow>
            force (shock la) = Fin (- f_prod * m_prod / m_shock))"
proof -
  from LongAccel_init_shock [OF init]
  have sh: "make_shock c r stiffness f_prod = Inr (shock la)" by simp
  then obtain m_prod m_shock where arms: "moment_arms c r = Some (m_prod, m_shock)"
    by (auto simp: make_shock_def moment_arms_def Let_def split: sum.splits)
  from make_shock_moment_arms [OF arms, of stiffness f_prod] sh
  have "shock la = Shock_init (Fin stiffness) (Fin (norm_v (get_s_p r)))
      (sdiv (smul (Fin (- f_prod)) m_prod) m_shock)"
    by simp
  with arms show ?thesis by (auto simp: Shock_init_def)
qed

theorem make_shock_reference_state_witness:
  "LongAccel_init ex_ca ex_rocker 50000 1000 = Inr ex_la \<and>
   moment_arms ex_ca ex_rocker = Some (Fin (- 1), Fin 1) \<and>
   get_s_p ex_rocker = Vector (0, 1, 0) \<and>
   shock ex_la = \<lparr>k = Fin 50000, len = Fin 1, force = Fin 1000\<rparr>"
proof -
  have s_p: "get_s_p ex_rocker = Vector (0, 1, 0)"
    by (simp add: ex_rocker_def eval_simps)
  from make_shock_reference_state [OF ex_la_init] ex_moment_arms
  have "k (shock ex_la) = Fin 50000" "len (shock ex_la) = Fin 1"
    "force (shock ex_la) = Fin 1000"
    by (simp_all add: s_p norm_v_def)
  then show ?thesis by (simp add: ex_la_init ex_moment_arms s_p)
qed

text \<open>
  The reference length is not the distance of the shock hardpoint from the rocker pivot
  when the pivot is away from the origin of the parent frame: here the pivot is at
  \<open>(-1, 0, 0)\<close> and the shock hardpoint at \<open>(0, 1, 0)\<close>, at the distance \<open>sqrt 2\<close>, and
  the reference length is 1.
\<close>

theorem reference_length_counterexample:
  "LongAccel_init ex_ca ex_rocker 50000 1000 = Inr ex_la \<and>
   len (shock ex_la) = Fin 1 \<and>
   get_pi_p ex_rocker = Vector (- 1, 0, 0) \<and>
   get_s_p ex_rocker = Vector (0, 1, 0) \<and>
   norm_v (subtract (get_s_p ex_rocker) (get_pi_p ex_rocker)) = sqrt 2 \<and>
   len (shock ex_la) \<noteq> Fin (norm_v (subtract (get_s_p ex_rocker) (get_pi_p ex_rocker)))"
proof -
  have "norm_v (subtract (get_s_p ex_rocker) (get_pi_p ex_rocker)) = sqrt 2"
    by (simp add: ex_rocker_def eval_simps)
  moreover have "len (shock ex_la) = Fin 1" by (simp add: ex_la_def)
  moreover have "get_pi_p ex_rocker = Vector (- 1, 0, 0)" "get_s_p ex_rocker = Vector (0, 1, 0)"
    by (simp_all add: ex_rocker_def eval_simps)
  ultimately show ?thesis by (simp add: ex_la_init)
qed

text \<open>
  Claim C6, as the code has it. A zero moment arm is not reported: with a shock moment
  arm of zero the constructor returns an aggregate whose shock has a non-finite reference
  force, and with a rod moment arm of zero \<^verbatim>\<open>get_forces\<close> returns a non-finite rod force.
\<close>

theorem zero_moment_arm_not_reported:
  "(moment_arms c r = Some (m_prod, Fin 0) \<longrightarrow>
      (\<exists>new. LongAccel_init c r stiffness f_prod = Inr new \<and> force (shock new) = NonFinite)) \<and>
   (moment_arms (ca la) (rocker la) = Some (Fin 0, m_shock) \<longrightarrow>
      (\<exists>f_shock. get_forces la = Inr (f_shock, NonFinite)))"
proof (intro conjI impI)
  assume arms: "moment_arms c r = Some (m_prod, Fin 0)"
  then obtain p_p where "get_p_p c = Inr p_p"
    by (auto simp: moment_arms_def split: sum.splits)
  moreover have "sdiv (smul (Fin (- f_prod)) m_prod) (Fin 0) = NonFinite"
    by (cases m_prod) simp_all
  ultimately show "\<exists>new. LongAccel_init c r stiffness f_prod = Inr new \<and> force (shock new) = NonFinite"
    using make_shock_moment_arms [OF arms, of stiffness f_prod]
    by (simp add: LongAccel_init_def Shock_init_def)
next
  assume arms: "moment_arms (ca la) (rocker la) = Some (Fin 0, m_shock)"
  have "sdiv (smul x m_shock) (Fin 0) = NonFinite" for x
    by (cases x; cases m_shock) simp_all
  with get_forces_moment_arms [OF arms]
  show "\<exists>f_shock. get_forces la = Inr (f_shock, NonFinite)" by simp
qed

lemma far_rocker_init:
  "Rocker_init (Vector (0, 0, 1)) (Vector (1, 0, 0)) (Vector (1, - 5, 0))
     \<lparr>origin = Vector (0, 5, 0), rotation = eye3\<rparr> = far_rocker"
  by (simp add: Rocker_init_def far_rocker_def)

lemma far_moment_arms: "moment_arms far_ca far_rocker = Some (Fin 0, Fin 5)"
  by (simp add: moment_arms_def far_ca_def far_rocker_def eval_simps)

lemma far_make_shock:
  "make_shock far_ca far_rocker 50000 1000
     = Inr \<lparr>k = Fin 50000, len = Fin 1, force = Fin 0\<rparr>"
  by (simp add: make_shock_def far_ca_def far_rocker_def eval_simps)

lemma far_la_init: "LongAccel_init far_ca far_rocker 50000 1000 = Inr far_la"
  by (simp add: LongAccel_init_def far_make_shock)
    (simp add: far_la_def far_ca_def far_rocker_def eval_simps)

lemma flat_moment_arms:
  "moment_arms far_ca (far_rocker\<lparr>s_l := Vector (0, - 4, 0)\<rparr>) = Some (Fin 0, Fin 0)"
  by (simp add: moment_arms_def far_ca_def far_rocker_def eval_simps)

theorem zero_moment_arm_not_reported_witness:
  "moment_arms far_ca (far_rocker\<lparr>s_l := Vector (0, - 4, 0)\<rparr>) = Some (Fin 0, Fin 0) \<and>
   (\<exists>new. LongAccel_init far_ca (far_rocker\<lparr>s_l := Vector (0, - 4, 0)\<rparr>) 50000 1000 = Inr new
         \<and> force (shock new) = NonFinite) \<and>
   moment_arms (ca far_la) (rocker far_la) = Some (Fin 0, Fin 5) \<and>
   (\<exists>f_shock. get_forces far_la = Inr (f_shock, NonFinite))"
proof -
  have far: "moment_arms (ca far_la) (rocker far_la) = Some (Fin 0, Fin 5)"
    using far_moment_arms by (simp add: far_la_def)
  from zero_moment_arm_not_reported [where c = far_ca
      and r = "far_rocker\<lparr>s_l := Vector (0, - 4, 0)\<rparr>" and m_prod = "Fin 0"
      and la = far_la and m_shock = "Fin 5" and stiffness = 50000 and f_prod = 1000]
    flat_moment_arms far
  show ?thesis by simp
qed

text \<open>
  No error for a rod moment arm of zero: \<^verbatim>\<open>get_forces\<close> returns, and the rod force is
  not finite.
\<close>

theorem zero_moment_arm_counterexample:
  "moment_arms (ca far_la) (rocker far_la) = Some (Fin 0, Fin 5) \<and>
   LongAccel_init far_ca far_rocker 50000 1000 = Inr far_la \<and>
   get_forces far_la = Inr (Fin 0, NonFinite)"
proof -
  have far: "moment_arms (ca far_la) (rocker far_la) = Some (Fin 0, Fin 5)"
    using far_moment_arms by (simp add: far_la_def)
  from get_forces_moment_arms [OF far] show ?thesis
    by (simp add: far far_la_init) (simp add: far_la_def far_rocker_def eval_simps)
qed

subsection \<open>The constructor of the aggregate\<close>

text \<open>
  Claim C10. The constructor leaves the control arm and the rocker as they are, the
  orientations of their frames and all their hardpoints: the aggregate holds the two
  links it was given.
\<close>

theorem LongAccel_init_reads_only:
  "LongAccel_init c r stiffness f_prod = Inr la \<Longrightarrow> ca la = c \<and> rocker la = r"
  by (auto simp: LongAccel_init_def split: sum.splits)

theorem LongAccel_init_reads_only_witness:
  "LongAccel_init ex_ca ex_rocker 50000 1000 = Inr ex_la \<and> ca ex_la = ex_ca \<and> rocker ex_la = ex_rocker"
  using LongAccel_init_reads_only [OF ex_la_init] by (simp add: ex_la_init)

subsection \<open>The side of a control arm\<close>

text \<open>
  Claim C4 at the side \<^verbatim>\<open>'R'\<close>. The constructor accepts \<^verbatim>\<open>'R'\<close>, a spelling of the right
  side, and \<^verbatim>\<open>rotate\<close> applies the angle as it is, where it negates the angle for the
  side \<^verbatim>\<open>'r'\<close>: a quarter turn of the arm goes the other way.
\<close>

theorem ControlArm_rotate_upper_R:
  "ControlArm_init (Vector (0, 3, 0)) (Vector (0, 4, 0))
     \<lparr>origin = Vector (0, 0, 0), rotation = eye3\<rparr> (Some (Vector (- 2, 1, 0))) ''R''
     = Inr (ex_ca\<lparr>side := ''R''\<rparr>) \<and>
   rotation (frame (ControlArm_rotate (ex_ca\<lparr>side := ''R''\<rparr>) 90 True))
     = make_rotation 90 CHR ''x'' True \<and>
   rotation (frame (ControlArm_rotate (ex_ca\<lparr>side := ''r''\<rparr>) 90 True))
     = make_rotation (- 90) CHR ''x'' True \<and>
   make_rotation 90 CHR ''x'' True = ((1, 0, 0), (0, 0, - 1), (0, 1, 0)) \<and>
   make_rotation (- 90) CHR ''x'' True = ((1, 0, 0), (0, 0, 1), (0, - 1, 0))"
proof -
  have q: "radians 90 True = pi / 2" "radians (- 90) True = - (pi / 2)"
    by (simp_all add: radians_def)
  show ?thesis
    by (simp add: ControlArm_init_def lower_R ex_ca_def ControlArm_rotate_def Let_def
        get_rotation_def set_rotation_def mat_mul_eye3_left)
       (simp add: make_rotation_def q Let_def)
qed

end
